theory Spec2Isabelle
  imports Main
begin

section \<open>The node of a circuit DAG: \<^verbatim>\<open>qiskit/dagcircuit/dagnode.py\<close>\<close>

text \<open>
  A \<^verbatim>\<open>DAGNode\<close> is a Python object with two attributes: \<^verbatim>\<open>_node_id\<close>, an
  integer, and \<^verbatim>\<open>data_dict\<close>, a reference to a dictionary object that the caller of the
  constructor supplies and the node never copies. The property setters write into that
  dictionary in place, so two nodes built over one dictionary share their payload. The
  embedding therefore keeps an explicit store: dictionary objects and node objects live at
  addresses, and a node holds the address of its dictionary.
\<close>

subsection \<open>Python values held in the payload\<close>

text \<open>
  The classes \<^verbatim>\<open>Instruction\<close>, \<^verbatim>\<open>Bit\<close> (with its subclasses \<^verbatim>\<open>Qubit\<close> and
  \<^verbatim>\<open>Clbit\<close>) and \<^verbatim>\<open>ClassicalRegister\<close> are imported from other modules. They are
  type parameters \<open>'i\<close>, \<open>'b\<close> and \<open>'r\<close>; the \<^verbatim>\<open>==\<close> of each class is the equality of
  the parameter, and bits are hashable consistently with it.

  The value stored under a key has the type that the annotation of the matching property
  gives. A property annotated \<^verbatim>\<open>Optional[T]\<close> reads a key that is absent, bound to
  \<^verbatim>\<open>None\<close>, or bound to a \<^verbatim>\<open>T\<close>; a property annotated \<^verbatim>\<open>List[T]\<close> reads a key
  that is absent or bound to a list.
\<close>

datatype 'a entry = Absent | PyNone | Val 'a

text \<open>\<^verbatim>\<open>d.get(k)\<close>: the value under the key, \<^verbatim>\<open>None\<close> when the key is absent.\<close>

fun py_get :: "'a entry \<Rightarrow> 'a option" where
  "py_get Absent = None"
| "py_get PyNone = None"
| "py_get (Val v) = Some v"

text \<open>\<^verbatim>\<open>d.get(k, [])\<close> on a list-valued key.\<close>

fun py_get_list :: "'a list option \<Rightarrow> 'a list" where
  "py_get_list None = []"
| "py_get_list (Some xs) = xs"

record ('i, 'b, 'r) data_dict =
  k_type :: "string entry"
  k_op :: "'i entry"
  k_name :: "string entry"
  k_qargs :: "'b list option"
  k_cargs :: "'b list option"
  k_condition :: "('r \<times> int) entry"
  k_wire :: "'b entry"

text \<open>The dictionary literal \<^verbatim>\<open>{}\<close>.\<close>

definition empty_dict :: "('i, 'b, 'r) data_dict" where
  "empty_dict = \<lparr>k_type = Absent, k_op = Absent, k_name = Absent, k_qargs = None,
     k_cargs = None, k_condition = Absent, k_wire = Absent\<rparr>"

datatype error = QiskitError | KeyError string

subsection \<open>Objects and the store\<close>

type_synonym addr = nat

record DAGNode =
  node_id :: int
  data_dict :: addr

record ('i, 'b, 'r) heap =
  dict_at :: "addr \<Rightarrow> ('i, 'b, 'r) data_dict"
  node_at :: "addr \<Rightarrow> DAGNode"

text \<open>A store in which every dictionary is empty and every node has the default identity.\<close>

definition empty_heap :: "('i, 'b, 'r) heap" where
  "empty_heap = \<lparr>dict_at = (\<lambda>_. empty_dict), node_at = (\<lambda>_. \<lparr>node_id = - 1, data_dict = 0\<rparr>)\<rparr>"

text \<open>Evaluating a dictionary display places a dictionary object at an address.\<close>

definition dict_new :: "('i, 'b, 'r) heap \<Rightarrow> addr \<Rightarrow> ('i, 'b, 'r) data_dict \<Rightarrow> ('i, 'b, 'r) heap" where
  "dict_new h r d = h\<lparr>dict_at := (dict_at h)(r := d)\<rparr>"

text \<open>
  \<^verbatim>\<open>__init__(self, data_dict, nid=-1)\<close>: \<open>self\<close> is the address of the object being
  initialised, \<open>dd\<close> the reference passed as \<^verbatim>\<open>data_dict\<close>, and \<open>nid\<close> is \<open>None\<close> when
  the caller leaves the argument out.
\<close>

definition DAGNode_init ::
  "('i, 'b, 'r) heap \<Rightarrow> addr \<Rightarrow> addr \<Rightarrow> int option \<Rightarrow> ('i, 'b, 'r) heap" where
  "DAGNode_init h self dd nid =
     h\<lparr>node_at := (node_at h)(self :=
          \<lparr>node_id = (case nid of None \<Rightarrow> - 1 | Some n \<Rightarrow> n), data_dict = dd\<rparr>)\<rparr>"

text \<open>The dictionary object that \<^verbatim>\<open>self.data_dict\<close> refers to.\<close>

definition self_dict :: "('i, 'b, 'r) heap \<Rightarrow> addr \<Rightarrow> ('i, 'b, 'r) data_dict" where
  "self_dict h self = dict_at h (data_dict (node_at h self))"

subsection \<open>Properties\<close>

definition DAGNode_type :: "('i, 'b, 'r) heap \<Rightarrow> addr \<Rightarrow> string option" where
  "DAGNode_type h self = py_get (k_type (self_dict h self))"

text \<open>
  \<^verbatim>\<open>if 'type' not in self.data_dict or self.data_dict['type'] != 'op': raise QiskitError\<close>.
  The text of the message is left out.
\<close>

definition DAGNode_op :: "('i, 'b, 'r) heap \<Rightarrow> addr \<Rightarrow> error + 'i option" where
  "DAGNode_op h self =
     (if k_type (self_dict h self) = Absent \<or> k_type (self_dict h self) \<noteq> Val ''op''
      then Inl QiskitError
      else Inr (py_get (k_op (self_dict h self))))"

definition DAGNode_name :: "('i, 'b, 'r) heap \<Rightarrow> addr \<Rightarrow> string option" where
  "DAGNode_name h self = py_get (k_name (self_dict h self))"

text \<open>\<^verbatim>\<open>self.data_dict['name'] = new_name\<close> writes into the dictionary object.\<close>

definition DAGNode_name_setter ::
  "('i, 'b, 'r) heap \<Rightarrow> addr \<Rightarrow> string \<Rightarrow> ('i, 'b, 'r) heap" where
  "DAGNode_name_setter h self new_name =
     h\<lparr>dict_at := (dict_at h)(data_dict (node_at h self) :=
          (self_dict h self)\<lparr>k_name := Val new_name\<rparr>)\<rparr>"

definition DAGNode_qargs :: "('i, 'b, 'r) heap \<Rightarrow> addr \<Rightarrow> 'b list" where
  "DAGNode_qargs h self = py_get_list (k_qargs (self_dict h self))"

definition DAGNode_qargs_setter ::
  "('i, 'b, 'r) heap \<Rightarrow> addr \<Rightarrow> 'b list \<Rightarrow> ('i, 'b, 'r) heap" where
  "DAGNode_qargs_setter h self new_qargs =
     h\<lparr>dict_at := (dict_at h)(data_dict (node_at h self) :=
          (self_dict h self)\<lparr>k_qargs := Some new_qargs\<rparr>)\<rparr>"

definition DAGNode_cargs :: "('i, 'b, 'r) heap \<Rightarrow> addr \<Rightarrow> 'b list" where
  "DAGNode_cargs h self = py_get_list (k_cargs (self_dict h self))"

definition DAGNode_condition :: "('i, 'b, 'r) heap \<Rightarrow> addr \<Rightarrow> ('r \<times> int) option" where
  "DAGNode_condition h self = py_get (k_condition (self_dict h self))"

text \<open>
  \<^verbatim>\<open>if self.data_dict['type'] not in ['in', 'out']: raise QiskitError\<close>. The subscript
  raises \<^verbatim>\<open>KeyError\<close> when the key is absent.
\<close>

definition DAGNode_wire :: "('i, 'b, 'r) heap \<Rightarrow> addr \<Rightarrow> error + 'b option" where
  "DAGNode_wire h self =
     (case k_type (self_dict h self) of
        Absent \<Rightarrow> Inl (KeyError ''type'')
      | t \<Rightarrow> if t \<noteq> Val ''in'' \<and> t \<noteq> Val ''out''
             then Inl QiskitError
             else Inr (py_get (k_wire (self_dict h self))))"

subsection \<open>Ordering, identity and hashing\<close>

definition DAGNode_lt :: "('i, 'b, 'r) heap \<Rightarrow> addr \<Rightarrow> addr \<Rightarrow> bool" where
  "DAGNode_lt h self other = (node_id (node_at h self) < node_id (node_at h other))"

definition DAGNode_gt :: "('i, 'b, 'r) heap \<Rightarrow> addr \<Rightarrow> addr \<Rightarrow> bool" where
  "DAGNode_gt h self other = (node_id (node_at h self) > node_id (node_at h other))"

text \<open>\<^verbatim>\<open>id(self)\<close>: the address of the object, as an integer.\<close>

definition py_id :: "addr \<Rightarrow> int" where
  "py_id self = int self"

text \<open>
  \<^verbatim>\<open>hash\<close> of an integer in CPython on a 64-bit platform: the value reduced modulo the
  Mersenne prime \<open>2 ^ 61 - 1\<close>, with the sign kept, and \<open>- 2\<close> in place of \<open>- 1\<close>.
\<close>

definition py_hash_int :: "int \<Rightarrow> int" where
  "py_hash_int n =
     (let r = (if n < 0 then - ((- n) mod (2 ^ 61 - 1)) else n mod (2 ^ 61 - 1))
      in if r = - 1 then - 2 else r)"

definition DAGNode_hash :: "addr \<Rightarrow> int" where
  "DAGNode_hash self = py_hash_int (py_id self)"

text \<open>
  The class defines no \<^verbatim>\<open>__eq__\<close>, so \<^verbatim>\<open>==\<close> on two nodes is the default of
  \<^verbatim>\<open>object\<close>: the two references are the same object.
\<close>

definition DAGNode_eq :: "addr \<Rightarrow> addr \<Rightarrow> bool" where
  "DAGNode_eq self other = (self = other)"

text \<open>
  The test by which a set or a dictionary takes two keys for the same entry: equal hashes,
  and the same object or \<^verbatim>\<open>==\<close>.
\<close>

definition same_key :: "addr \<Rightarrow> addr \<Rightarrow> bool" where
  "same_key x y = (DAGNode_hash x = DAGNode_hash y \<and> (x = y \<or> DAGNode_eq x y))"

subsection \<open>Semantic equivalence\<close>

text \<open>
  \<^verbatim>\<open>'barrier' == node1.name == node2.name\<close> is the conjunction of the two comparisons.
\<close>

definition semantic_eq :: "('i, 'b, 'r) heap \<Rightarrow> addr \<Rightarrow> addr \<Rightarrow> bool" where
  "semantic_eq h node1 node2 =
     (if Some ''barrier'' = DAGNode_name h node1 \<and> DAGNode_name h node1 = DAGNode_name h node2
      then set (DAGNode_qargs h node1) = set (DAGNode_qargs h node2)
      else self_dict h node1 = self_dict h node2)"

text \<open>Everything that the accessors of a node report about its payload.\<close>

definition accessor_view ::
  "('i, 'b, 'r) heap \<Rightarrow> addr \<Rightarrow>
     string option \<times> (error + 'i option) \<times> string option \<times> 'b list \<times> 'b list \<times>
     ('r \<times> int) option \<times> (error + 'b option)" where
  "accessor_view h n =
     (DAGNode_type h n, DAGNode_op h n, DAGNode_name h n, DAGNode_qargs h n,
      DAGNode_cargs h n, DAGNode_condition h n, DAGNode_wire h n)"

subsection \<open>Example stores\<close>

text \<open>
  The payload the DAG container builds for an operation node:
  \<^verbatim>\<open>{'type': 'op', 'op': op, 'name': name, 'qargs': qargs, 'cargs': [], 'condition': None}\<close>.
\<close>

definition op_node_dict :: "'i \<Rightarrow> string \<Rightarrow> 'b list \<Rightarrow> ('i, 'b, 'r) data_dict" where
  "op_node_dict i nm qs = \<lparr>k_type = Val ''op'', k_op = Val i, k_name = Val nm, k_qargs = Some qs,
     k_cargs = Some [], k_condition = PyNone, k_wire = Absent\<rparr>"

text \<open>
  \<^verbatim>\<open>a = DAGNode(d0, 0); b = DAGNode(d1, 1)\<close> over two dictionary objects: the node at
  address \<open>0\<close> holds the dictionary at \<open>0\<close>, the node at address \<open>1\<close> the one at \<open>1\<close>.
\<close>

definition two_nodes ::
  "('i, 'b, 'r) data_dict \<Rightarrow> ('i, 'b, 'r) data_dict \<Rightarrow> ('i, 'b, 'r) heap" where
  "two_nodes d0 d1 =
     DAGNode_init (DAGNode_init (dict_new (dict_new empty_heap 0 d0) 1 d1) 0 0 (Some 0)) 1 1 (Some 1)"

text \<open>\<^verbatim>\<open>a = DAGNode(d, 0); b = DAGNode(d, 1)\<close>: two nodes over one dictionary object.\<close>

definition shared_nodes :: "('i, 'b, 'r) data_dict \<Rightarrow> ('i, 'b, 'r) heap" where
  "shared_nodes d = DAGNode_init (DAGNode_init (dict_new empty_heap 0 d) 0 0 (Some 0)) 1 0 (Some 1)"

definition barrier_reordered :: "(nat, nat, nat) heap" where
  "barrier_reordered = two_nodes (op_node_dict 7 ''barrier'' [0, 1])
     (empty_dict\<lparr>k_name := Val ''barrier'', k_qargs := Some [1, 0]\<rparr>)"

definition barrier_other_set :: "(nat, nat, nat) heap" where
  "barrier_other_set =
     two_nodes (op_node_dict 7 ''barrier'' [0, 1]) (op_node_dict 7 ''barrier'' [0, 2])"

definition barrier_repeated :: "(nat, nat, nat) heap" where
  "barrier_repeated =
     two_nodes (op_node_dict 7 ''barrier'' [0, 0]) (op_node_dict 7 ''barrier'' [0])"

definition x_same :: "(nat, nat, nat) heap" where
  "x_same = two_nodes (op_node_dict 3 ''x'' [0, 1]) (op_node_dict 3 ''x'' [0, 1])"

definition x_reordered :: "(nat, nat, nat) heap" where
  "x_reordered = two_nodes (op_node_dict 3 ''x'' [0, 1]) (op_node_dict 3 ''x'' [1, 0])"


text \<open>\<^verbatim>\<open>DAGNode({}, 0)\<close>: a node whose payload has no key at all.\<close>

definition kind_unset :: "(nat, nat, nat) heap" where
  "kind_unset = DAGNode_init (dict_new empty_heap 0 empty_dict) 0 0 (Some 0)"

definition three_ids :: "(nat, nat, nat) heap" where
  "three_ids = DAGNode_init (DAGNode_init (DAGNode_init (dict_new empty_heap 0 empty_dict)
     0 0 (Some 4)) (Suc 0) 0 (Some 9)) 2 0 (Some 12)"

text \<open>\<^verbatim>\<open>d = {}; a = DAGNode(d); b = DAGNode(d)\<close>: two nodes built without an identity.\<close>

definition default_ids :: "(nat, nat, nat) heap" where
  "default_ids =
     DAGNode_init (DAGNode_init (dict_new empty_heap 0 empty_dict) 0 0 None) (Suc 0) 0 None"

definition absent_vs_empty :: "(nat, nat, nat) heap" where
  "absent_vs_empty =
     two_nodes (empty_dict\<lparr>k_type := Val ''op'', k_op := Val 3, k_name := Val ''x''\<rparr>)
       (empty_dict\<lparr>k_type := Val ''op'', k_op := Val 3, k_name := Val ''x'', k_qargs := Some []\<rparr>)"

section \<open>Properties\<close>

subsection \<open>Reading the example stores\<close>

lemma two_nodes_dict [simp]:
  "self_dict (two_nodes d0 d1) 0 = d0" "self_dict (two_nodes d0 d1) (Suc 0) = d1"
  by (simp_all add: two_nodes_def DAGNode_init_def dict_new_def self_dict_def)

lemma two_nodes_id [simp]:
  "node_id (node_at (two_nodes d0 d1) 0) = 0" "node_id (node_at (two_nodes d0 d1) (Suc 0)) = 1"
  by (simp_all add: two_nodes_def DAGNode_init_def dict_new_def)

lemma two_nodes_ref [simp]:
  "data_dict (node_at (two_nodes d0 d1) 0) = 0"
  "data_dict (node_at (two_nodes d0 d1) (Suc 0)) = Suc 0"
  by (simp_all add: two_nodes_def DAGNode_init_def dict_new_def)

lemma shared_nodes_dict [simp]:
  "self_dict (shared_nodes d) 0 = d" "self_dict (shared_nodes d) (Suc 0) = d"
  "data_dict (node_at (shared_nodes d) 0) = 0" "data_dict (node_at (shared_nodes d) (Suc 0)) = 0"
  by (simp_all add: shared_nodes_def DAGNode_init_def dict_new_def self_dict_def)

lemma kind_unset_dict [simp]: "self_dict kind_unset 0 = empty_dict"
  by (simp add: kind_unset_def self_dict_def DAGNode_init_def dict_new_def)

subsection \<open>The setters, seen through the store\<close>




subsection \<open>The kind-specific accessors, case by case\<close>

lemma DAGNode_op_cases:
  "DAGNode_op h n =
     (if k_type (self_dict h n) = Val ''op'' then Inr (py_get (k_op (self_dict h n)))
      else Inl QiskitError)"
  by (simp add: DAGNode_op_def)

lemma DAGNode_wire_cases:
  "DAGNode_wire h n =
     (if k_type (self_dict h n) = Val ''in'' \<or> k_type (self_dict h n) = Val ''out''
      then Inr (py_get (k_wire (self_dict h n)))
      else if k_type (self_dict h n) = Absent then Inl (KeyError ''type'')
      else Inl QiskitError)"
  by (simp add: DAGNode_wire_def split: entry.split)

lemma op_kind_unset: "DAGNode_op kind_unset 0 = Inl QiskitError"
  by (simp add: DAGNode_op_def empty_dict_def)

lemma py_hash_int_small: "0 \<le> n \<Longrightarrow> n < 2 ^ 61 - 1 \<Longrightarrow> py_hash_int n = n"
  by (simp add: py_hash_int_def Let_def)

subsection \<open>Semantic equivalence of barriers\<close>

text \<open>
  Claim C1. When both nodes are named \<^verbatim>\<open>"barrier"\<close>, \<open>semantic_eq\<close> is true exactly when
  the two lists of quantum operands have the same set of elements. Nothing else of the two
  payloads is read: any other pair of barrier nodes with the same two operand sets, in any
  store, gets the same answer.
\<close>

theorem barrier_semantic_eq:
  assumes "DAGNode_name h a = Some ''barrier''" and "DAGNode_name h b = Some ''barrier''"
  shows "(semantic_eq h a b \<longleftrightarrow> set (DAGNode_qargs h a) = set (DAGNode_qargs h b)) \<and>
    (\<forall>h' a' b'. DAGNode_name h' a' = Some ''barrier'' \<and> DAGNode_name h' b' = Some ''barrier'' \<and>
       set (DAGNode_qargs h' a') = set (DAGNode_qargs h a) \<and>
       set (DAGNode_qargs h' b') = set (DAGNode_qargs h b) \<longrightarrow>
       semantic_eq h' a' b' = semantic_eq h a b)"
  using assms by (simp add: semantic_eq_def)

text \<open>
  C1 at two stores: operands \<open>[0, 1]\<close> against \<open>[1, 0]\<close>, with the other keys of the two
  payloads different, and operands \<open>[0, 1]\<close> against \<open>[0, 2]\<close>.
\<close>

theorem barrier_semantic_eq_witness:
  "DAGNode_name barrier_reordered 0 = Some ''barrier'' \<and>
   DAGNode_name barrier_reordered (Suc 0) = Some ''barrier'' \<and>
   DAGNode_qargs barrier_reordered 0 = [0, 1] \<and>
   DAGNode_qargs barrier_reordered (Suc 0) = [1, 0] \<and>
   self_dict barrier_reordered 0 \<noteq> self_dict barrier_reordered (Suc 0) \<and>
   semantic_eq barrier_reordered 0 (Suc 0) \<and>
   DAGNode_name barrier_other_set 0 = Some ''barrier'' \<and>
   DAGNode_name barrier_other_set (Suc 0) = Some ''barrier'' \<and>
   \<not> semantic_eq barrier_other_set 0 (Suc 0)"
proof -
  have n: "DAGNode_name barrier_reordered 0 = Some ''barrier''"
    "DAGNode_name barrier_reordered (Suc 0) = Some ''barrier''"
    "DAGNode_name barrier_other_set 0 = Some ''barrier''"
    "DAGNode_name barrier_other_set (Suc 0) = Some ''barrier''"
    by (simp_all add: barrier_reordered_def barrier_other_set_def DAGNode_name_def
        op_node_dict_def empty_dict_def)
  have q: "DAGNode_qargs barrier_reordered 0 = [0, 1]"
    "DAGNode_qargs barrier_reordered (Suc 0) = [1, 0]"
    "DAGNode_qargs barrier_other_set 0 = [0, 1]"
    "DAGNode_qargs barrier_other_set (Suc 0) = [0, 2]"
    by (simp_all add: barrier_reordered_def barrier_other_set_def DAGNode_qargs_def
        op_node_dict_def empty_dict_def)
  have d: "self_dict barrier_reordered 0 \<noteq> self_dict barrier_reordered (Suc 0)"
    by (simp add: barrier_reordered_def op_node_dict_def empty_dict_def)
  have e1: "semantic_eq barrier_reordered 0 (Suc 0)"
    using barrier_semantic_eq [OF n(1) n(2), THEN conjunct1] by (simp add: q insert_commute)
  have e2: "\<not> semantic_eq barrier_other_set 0 (Suc 0)"
    using barrier_semantic_eq [OF n(3) n(4), THEN conjunct1] by (simp add: q doubleton_eq_iff)
  from n q d e1 e2 show ?thesis by blast
qed

subsection \<open>Semantic equivalence of all other nodes\<close>

text \<open>
  Claim C2. When the two nodes are not both named \<^verbatim>\<open>"barrier"\<close>, \<open>semantic_eq\<close> is true
  exactly when the two payloads agree key by key: kind, operation (by the equality of the
  operation type), name, quantum operands in order, classical operands in order, condition
  and wire.
\<close>

theorem non_barrier_semantic_eq:
  assumes "\<not> (DAGNode_name h a = Some ''barrier'' \<and> DAGNode_name h b = Some ''barrier'')"
  shows "semantic_eq h a b \<longleftrightarrow>
    (k_type (self_dict h a) = k_type (self_dict h b) \<and>
     k_op (self_dict h a) = k_op (self_dict h b) \<and>
     k_name (self_dict h a) = k_name (self_dict h b) \<and>
     k_qargs (self_dict h a) = k_qargs (self_dict h b) \<and>
     k_cargs (self_dict h a) = k_cargs (self_dict h b) \<and>
     k_condition (self_dict h a) = k_condition (self_dict h b) \<and>
     k_wire (self_dict h a) = k_wire (self_dict h b))"
proof -
  have "semantic_eq h a b \<longleftrightarrow> self_dict h a = self_dict h b"
    using assms by (auto simp: semantic_eq_def)
  then show ?thesis
    by (auto intro: data_dict.equality)
qed

text \<open>
  C2 at two stores: two \<^verbatim>\<open>"x"\<close> nodes with the same payload are equivalent, and with the
  operands \<open>[0, 1]\<close> and \<open>[1, 0]\<close> they are not.
\<close>

theorem non_barrier_semantic_eq_witness:
  "\<not> (DAGNode_name x_same 0 = Some ''barrier'' \<and> DAGNode_name x_same (Suc 0) = Some ''barrier'') \<and>
   DAGNode_name x_same 0 = Some ''x'' \<and> DAGNode_name x_same (Suc 0) = Some ''x'' \<and>
   semantic_eq x_same 0 (Suc 0) \<and>
   \<not> (DAGNode_name x_reordered 0 = Some ''barrier'' \<and>
      DAGNode_name x_reordered (Suc 0) = Some ''barrier'') \<and>
   DAGNode_qargs x_reordered 0 = [0, 1] \<and> DAGNode_qargs x_reordered (Suc 0) = [1, 0] \<and>
   \<not> semantic_eq x_reordered 0 (Suc 0)"
proof -
  have n: "DAGNode_name x_same 0 = Some ''x''" "DAGNode_name x_same (Suc 0) = Some ''x''"
    "DAGNode_name x_reordered 0 = Some ''x''" "DAGNode_name x_reordered (Suc 0) = Some ''x''"
    by (simp_all add: x_same_def x_reordered_def DAGNode_name_def op_node_dict_def)
  have q: "DAGNode_qargs x_reordered 0 = [0, 1]" "DAGNode_qargs x_reordered (Suc 0) = [1, 0]"
    by (simp_all add: x_reordered_def DAGNode_qargs_def op_node_dict_def)
  have nb1: "\<not> (DAGNode_name x_same 0 = Some ''barrier'' \<and>
      DAGNode_name x_same (Suc 0) = Some ''barrier'')"
    by (simp add: n)
  have nb2: "\<not> (DAGNode_name x_reordered 0 = Some ''barrier'' \<and>
      DAGNode_name x_reordered (Suc 0) = Some ''barrier'')"
    by (simp add: n)
  have e1: "semantic_eq x_same 0 (Suc 0)"
    unfolding non_barrier_semantic_eq [OF nb1] by (simp add: x_same_def)
  have e2: "\<not> semantic_eq x_reordered 0 (Suc 0)"
    unfolding non_barrier_semantic_eq [OF nb2] by (simp add: x_reordered_def op_node_dict_def)
  from n nb1 nb2 q e1 e2 show ?thesis by blast
qed

subsection \<open>Symmetry\<close>

text \<open>
  Claim C3. \<open>semantic_eq\<close> is symmetric: exchanging the two nodes does not change the
  answer, in every store and for every pair of nodes.
\<close>

theorem semantic_eq_symmetric: "semantic_eq h a b = semantic_eq h b a"
  by (auto simp: semantic_eq_def)

subsection \<open>The kind-specific accessors\<close>

text \<open>
  Claim C4 asks that \<^verbatim>\<open>wire\<close> on a node whose kind is unset fails with
  \<^verbatim>\<open>QiskitError\<close>. On the node \<^verbatim>\<open>DAGNode({}, 0)\<close> the kind reads as \<^verbatim>\<open>None\<close> and
  \<^verbatim>\<open>wire\<close> fails with \<^verbatim>\<open>KeyError\<close>: the subscript \<^verbatim>\<open>self.data_dict['type']\<close> is
  evaluated without the membership test that \<^verbatim>\<open>op\<close> makes first
  (\<open>op_kind_unset\<close>, \<open>DAGNode_op_cases\<close>, \<open>DAGNode_wire_cases\<close>).
\<close>

theorem wire_kind_unset_KeyError:
  "DAGNode_type kind_unset 0 = None \<and> DAGNode_wire kind_unset 0 = Inl (KeyError ''type'')"
  by (simp add: DAGNode_type_def DAGNode_wire_def empty_dict_def)

subsection \<open>The operand accessors\<close>

text \<open>
  Claim C5. \<^verbatim>\<open>qargs\<close> and \<^verbatim>\<open>cargs\<close> return a list for every node: the empty list
  when the key is absent from the payload, the stored list otherwise. The two functions
  have no error result, as the source has no \<^verbatim>\<open>raise\<close> and \<^verbatim>\<open>dict.get\<close> has none.
\<close>

theorem operands_total:
  "(k_qargs (self_dict h n) = None \<longrightarrow> DAGNode_qargs h n = []) \<and>
   (\<forall>xs. k_qargs (self_dict h n) = Some xs \<longrightarrow> DAGNode_qargs h n = xs) \<and>
   (k_cargs (self_dict h n) = None \<longrightarrow> DAGNode_cargs h n = []) \<and>
   (\<forall>xs. k_cargs (self_dict h n) = Some xs \<longrightarrow> DAGNode_cargs h n = xs)"
  by (simp add: DAGNode_qargs_def DAGNode_cargs_def)

text \<open>C5 on a node with an empty payload and on a node with both lists set.\<close>

theorem operands_total_witness:
  "k_qargs (self_dict kind_unset 0) = None \<and> DAGNode_qargs kind_unset 0 = [] \<and>
   k_cargs (self_dict kind_unset 0) = None \<and> DAGNode_cargs kind_unset 0 = [] \<and>
   k_qargs (self_dict x_reordered 0) = Some [0, 1] \<and> DAGNode_qargs x_reordered 0 = [0, 1] \<and>
   k_cargs (self_dict x_reordered 0) = Some [] \<and> DAGNode_cargs x_reordered 0 = []"
proof -
  have a: "k_qargs (self_dict kind_unset 0) = None" "k_cargs (self_dict kind_unset 0) = None"
    by (simp_all add: empty_dict_def)
  have b: "k_qargs (self_dict x_reordered 0) = Some [0, 1]"
    "k_cargs (self_dict x_reordered 0) = Some []"
    by (simp_all add: x_reordered_def op_node_dict_def)
  from operands_total [of kind_unset 0] operands_total [of x_reordered 0] a b
  show ?thesis by blast
qed

subsection \<open>Ordering\<close>

text \<open>
  Claim C6 says that \<open><\<close> and \<open>>\<close> are a strict total order on nodes. The constructor
  takes any identity and gives \<open>- 1\<close> when none is passed, so two distinct node objects can
  carry the same identity: they are then neither \<open><\<close> nor \<open>>\<close> in either direction,
  and they are not \<^verbatim>\<open>==\<close> either.
\<close>

theorem default_ids_incomparable:
  "(0::nat) \<noteq> Suc 0 \<and> \<not> DAGNode_eq 0 (Suc 0) \<and>
   node_id (node_at default_ids 0) = - 1 \<and> node_id (node_at default_ids (Suc 0)) = - 1 \<and>
   \<not> DAGNode_lt default_ids 0 (Suc 0) \<and> \<not> DAGNode_gt default_ids 0 (Suc 0) \<and>
   \<not> DAGNode_lt default_ids (Suc 0) 0 \<and> \<not> DAGNode_gt default_ids (Suc 0) 0"
  by (simp add: default_ids_def DAGNode_eq_def DAGNode_lt_def DAGNode_gt_def DAGNode_init_def
      dict_new_def)

text \<open>
  Claim C6, amended. \<open>a < b\<close> holds exactly when the identity of \<open>a\<close> is less than that of
  \<open>b\<close>, and \<open>a > b\<close> exactly when it is greater. The order is irreflexive, asymmetric and
  transitive. Two nodes with different identities are comparable, so on every collection
  of nodes whose identities are pairwise distinct two distinct nodes are comparable and
  the order is a strict total order. The constructor stores the identity it is given
  (\<open>- 1\<close> when none is given), and neither setter changes any node object.
\<close>

theorem ordering_total_on_distinct_ids:
  "(DAGNode_lt h a b \<longleftrightarrow> node_id (node_at h a) < node_id (node_at h b)) \<and>
   (DAGNode_gt h a b \<longleftrightarrow> node_id (node_at h a) > node_id (node_at h b)) \<and>
   (DAGNode_gt h a b \<longleftrightarrow> DAGNode_lt h b a) \<and>
   \<not> DAGNode_lt h a a \<and>
   (DAGNode_lt h a b \<longrightarrow> \<not> DAGNode_lt h b a) \<and>
   (DAGNode_lt h a b \<and> DAGNode_lt h b c \<longrightarrow> DAGNode_lt h a c) \<and>
   (node_id (node_at h a) \<noteq> node_id (node_at h b) \<longrightarrow> DAGNode_lt h a b \<or> DAGNode_gt h a b) \<and>
   (inj_on (\<lambda>n. node_id (node_at h n)) S \<and> a \<in> S \<and> b \<in> S \<and> a \<noteq> b \<longrightarrow>
      DAGNode_lt h a b \<or> DAGNode_gt h a b) \<and>
   node_id (node_at (DAGNode_init h a dd (Some nid)) a) = nid \<and>
   node_id (node_at (DAGNode_init h a dd None) a) = - 1 \<and>
   node_at (DAGNode_name_setter h n new_name) = node_at h \<and>
   node_at (DAGNode_qargs_setter h n new_qargs) = node_at h"
proof -
  have t: "node_id (node_at h a) \<noteq> node_id (node_at h b) \<longrightarrow>
      DAGNode_lt h a b \<or> DAGNode_gt h a b"
    by (auto simp: DAGNode_lt_def DAGNode_gt_def)
  have s: "inj_on (\<lambda>n. node_id (node_at h n)) S \<and> a \<in> S \<and> b \<in> S \<and> a \<noteq> b \<longrightarrow>
      DAGNode_lt h a b \<or> DAGNode_gt h a b"
    using t by (auto dest: inj_onD)
  show ?thesis
    using t s
    by (simp add: DAGNode_lt_def DAGNode_gt_def DAGNode_init_def DAGNode_name_setter_def
        DAGNode_qargs_setter_def)
qed

text \<open>C6, amended, on three nodes constructed with the identities 4, 9 and 12.\<close>

theorem ordering_total_on_distinct_ids_witness:
  "node_id (node_at three_ids 0) = 4 \<and> node_id (node_at three_ids (Suc 0)) = 9 \<and>
   node_id (node_at three_ids 2) = 12 \<and>
   inj_on (\<lambda>n. node_id (node_at three_ids n)) {0, Suc 0, 2} \<and>
   DAGNode_lt three_ids 0 (Suc 0) \<and> DAGNode_lt three_ids (Suc 0) 2 \<and> DAGNode_lt three_ids 0 2 \<and>
   DAGNode_gt three_ids 2 0 \<and> \<not> DAGNode_lt three_ids 2 0 \<and>
   (DAGNode_lt three_ids 2 (Suc 0) \<or> DAGNode_gt three_ids 2 (Suc 0))"
proof -
  have i: "node_id (node_at three_ids 0) = 4" "node_id (node_at three_ids (Suc 0)) = 9"
    "node_id (node_at three_ids 2) = 12"
    by (simp_all add: three_ids_def DAGNode_init_def dict_new_def)
  have j: "inj_on (\<lambda>n. node_id (node_at three_ids n)) {0, Suc 0, 2}"
    by (simp add: i)
  have m: "(2::nat) \<in> {0, Suc 0, 2}" "Suc 0 \<in> {0::nat, Suc 0, 2}" "(2::nat) \<noteq> Suc 0"
    by simp_all
  have a: "DAGNode_lt three_ids 0 (Suc 0)"
    using ordering_total_on_distinct_ids [of three_ids 0 "Suc 0"] by (simp add: i)
  have b: "DAGNode_lt three_ids (Suc 0) 2"
    using ordering_total_on_distinct_ids [of three_ids "Suc 0" 2] by (simp add: i)
  have c: "DAGNode_lt three_ids 0 2"
    using ordering_total_on_distinct_ids [of three_ids 0 "Suc 0" 2] a b by blast
  have d: "DAGNode_gt three_ids 2 0" "\<not> DAGNode_lt three_ids 2 0"
    using ordering_total_on_distinct_ids [of three_ids 2 0] by (simp_all add: i)
  have e: "DAGNode_lt three_ids 2 (Suc 0) \<or> DAGNode_gt three_ids 2 (Suc 0)"
    using ordering_total_on_distinct_ids [of three_ids 2 "Suc 0" _ "{0, Suc 0, 2}"] j m by blast
  from i j a b c d e show ?thesis by blast
qed

subsection \<open>Identity against structure\<close>

text \<open>
  Claim C7. Two distinct node objects whose payloads are equal are not \<^verbatim>\<open>==\<close>, are two
  different keys of a set or a dictionary, and have different hashes (the hash is that of
  the address, which is the address itself below \<open>2 ^ 61 - 1\<close>); neither equality nor hash
  reads the payload. \<open>semantic_eq\<close> of the two is true. The identities of the two nodes
  play no part, so they may differ.
\<close>

theorem identity_equality_semantic_eq:
  assumes "a \<noteq> b" and "self_dict h a = self_dict h b"
  shows "\<not> DAGNode_eq a b \<and> \<not> same_key a b \<and>
    (py_id a < 2 ^ 61 - 1 \<and> py_id b < 2 ^ 61 - 1 \<longrightarrow> DAGNode_hash a \<noteq> DAGNode_hash b) \<and>
    semantic_eq h a b"
proof -
  have e: "\<not> DAGNode_eq a b"
    using assms(1) by (simp add: DAGNode_eq_def)
  have k: "\<not> same_key a b"
    using assms(1) by (simp add: same_key_def DAGNode_eq_def)
  have g: "py_id a < 2 ^ 61 - 1 \<and> py_id b < 2 ^ 61 - 1 \<longrightarrow> DAGNode_hash a \<noteq> DAGNode_hash b"
  proof
    assume small: "py_id a < 2 ^ 61 - 1 \<and> py_id b < 2 ^ 61 - 1"
    then have "DAGNode_hash a = py_id a" "DAGNode_hash b = py_id b"
      by (simp_all add: DAGNode_hash_def py_hash_int_small py_id_def)
    then show "DAGNode_hash a \<noteq> DAGNode_hash b"
      using assms(1) by (simp add: py_id_def)
  qed
  have s: "semantic_eq h a b"
    using assms(2) by (simp add: semantic_eq_def DAGNode_qargs_def)
  from e k g s show ?thesis by blast
qed

text \<open>C7 on two nodes built over equal payloads with the identities 0 and 1.\<close>

theorem identity_equality_semantic_eq_witness:
  "(0::nat) \<noteq> Suc 0 \<and> self_dict x_same 0 = self_dict x_same (Suc 0) \<and>
   node_id (node_at x_same 0) \<noteq> node_id (node_at x_same (Suc 0)) \<and>
   \<not> DAGNode_eq 0 (Suc 0) \<and> \<not> same_key 0 (Suc 0) \<and>
   DAGNode_hash 0 \<noteq> DAGNode_hash (Suc 0) \<and> semantic_eq x_same 0 (Suc 0)"
proof -
  have d: "(0::nat) \<noteq> Suc 0" by simp
  have p: "self_dict x_same 0 = self_dict x_same (Suc 0)" by (simp add: x_same_def)
  have i: "node_id (node_at x_same 0) \<noteq> node_id (node_at x_same (Suc 0))"
    by (simp add: x_same_def)
  have s: "py_id 0 < 2 ^ 61 - 1 \<and> py_id (Suc 0) < 2 ^ 61 - 1" by (simp add: py_id_def)
  from identity_equality_semantic_eq [OF d p] d p i s show ?thesis by blast
qed

subsection \<open>The setters\<close>




subsection \<open>Consequences of the two comparisons\<close>

text \<open>
  Claim C9. Two nodes named \<^verbatim>\<open>"barrier"\<close> whose quantum operands are \<open>[q0, q0]\<close> and
  \<open>[q0]\<close> are \<open>semantic_eq\<close>: the comparison of sets sees neither the repetition nor the
  length.
\<close>

theorem barrier_ignores_multiplicity:
  assumes "DAGNode_name h a = Some ''barrier''" and "DAGNode_name h b = Some ''barrier''"
    and "DAGNode_qargs h a = [q0, q0]" and "DAGNode_qargs h b = [q0]"
  shows "semantic_eq h a b"
  using assms by (simp add: semantic_eq_def)

text \<open>C9 on two barrier nodes with the operands \<open>[0, 0]\<close> and \<open>[0]\<close>.\<close>

theorem barrier_ignores_multiplicity_witness:
  "DAGNode_name barrier_repeated 0 = Some ''barrier'' \<and>
   DAGNode_name barrier_repeated (Suc 0) = Some ''barrier'' \<and>
   DAGNode_qargs barrier_repeated 0 = [0, 0] \<and>
   DAGNode_qargs barrier_repeated (Suc 0) = [0] \<and>
   length (DAGNode_qargs barrier_repeated 0) \<noteq> length (DAGNode_qargs barrier_repeated (Suc 0)) \<and>
   semantic_eq barrier_repeated 0 (Suc 0)"
proof -
  have n: "DAGNode_name barrier_repeated 0 = Some ''barrier''"
    "DAGNode_name barrier_repeated (Suc 0) = Some ''barrier''"
    by (simp_all add: barrier_repeated_def DAGNode_name_def op_node_dict_def)
  have q: "DAGNode_qargs barrier_repeated 0 = [0, 0]"
    "DAGNode_qargs barrier_repeated (Suc 0) = [0]"
    by (simp_all add: barrier_repeated_def DAGNode_qargs_def op_node_dict_def)
  from barrier_ignores_multiplicity [OF n q] n q show ?thesis by simp
qed

text \<open>
  Claim C10. Take a payload with no \<^verbatim>\<open>'qargs'\<close> key and the same payload with
  \<^verbatim>\<open>'qargs'\<close> bound to the empty list, the name not being \<^verbatim>\<open>"barrier"\<close>. Every
  accessor returns the same on the two nodes, and \<open>semantic_eq\<close> of the two is false: it
  compares the dictionaries, not what the accessors return.
\<close>

theorem absent_vs_empty_qargs:
  assumes "k_qargs (self_dict h a) = None"
    and "self_dict h b = (self_dict h a)\<lparr>k_qargs := Some []\<rparr>"
    and "DAGNode_name h a \<noteq> Some ''barrier''"
  shows "accessor_view h a = accessor_view h b \<and> \<not> semantic_eq h a b"
proof -
  have "accessor_view h a = accessor_view h b"
    using assms(1,2)
    by (simp add: accessor_view_def DAGNode_type_def DAGNode_op_def DAGNode_name_def
        DAGNode_qargs_def DAGNode_cargs_def DAGNode_condition_def DAGNode_wire_def
        split: entry.split)
  moreover have "self_dict h a \<noteq> self_dict h b"
  proof
    assume "self_dict h a = self_dict h b"
    then have "k_qargs (self_dict h a) = k_qargs (self_dict h b)" by simp
    with assms(1,2) show False by simp
  qed
  then have "\<not> semantic_eq h a b"
    using assms(3) by (auto simp: semantic_eq_def)
  ultimately show ?thesis by blast
qed

text \<open>C10 on two \<^verbatim>\<open>"x"\<close> nodes, one without the key and one with the empty list.\<close>

theorem absent_vs_empty_qargs_witness:
  "k_qargs (self_dict absent_vs_empty 0) = None \<and>
   k_qargs (self_dict absent_vs_empty (Suc 0)) = Some [] \<and>
   DAGNode_name absent_vs_empty 0 \<noteq> Some ''barrier'' \<and>
   DAGNode_qargs absent_vs_empty 0 = [] \<and> DAGNode_qargs absent_vs_empty (Suc 0) = [] \<and>
   accessor_view absent_vs_empty 0 = accessor_view absent_vs_empty (Suc 0) \<and>
   \<not> semantic_eq absent_vs_empty 0 (Suc 0)"
proof -
  have a: "k_qargs (self_dict absent_vs_empty 0) = None"
    by (simp add: absent_vs_empty_def empty_dict_def)
  have b: "self_dict absent_vs_empty (Suc 0) = (self_dict absent_vs_empty 0)\<lparr>k_qargs := Some []\<rparr>"
    by (simp add: absent_vs_empty_def empty_dict_def)
  have c: "DAGNode_name absent_vs_empty 0 \<noteq> Some ''barrier''"
    by (simp add: absent_vs_empty_def DAGNode_name_def empty_dict_def)
  have q: "DAGNode_qargs absent_vs_empty 0 = []" "DAGNode_qargs absent_vs_empty (Suc 0) = []"
    "k_qargs (self_dict absent_vs_empty (Suc 0)) = Some []"
    by (simp_all add: absent_vs_empty_def DAGNode_qargs_def empty_dict_def)
  from absent_vs_empty_qargs [OF a b c] a c q show ?thesis by blast
qed

end
